theory Spec2Isabelle
  imports Main "HOL-Library.Word" "HOL-Library.Signed_Division" "HOL-Library.Sublist"
begin

section \<open>The Arduino core as the sketches use it\<close>

text \<open>
  The sketches target the Arduino Nano ESP32 (README): \<open>int\<close>, \<open>long\<close> and
  \<open>unsigned long\<close> are 32 bits wide, \<open>unsigned short\<close> is 16 bits and \<open>byte\<close> is 8 bits.
  They are modelled as words of that width, so that \<open>-\<close> wraps as the unsigned
  subtraction of the debounce guards does.
\<close>

text \<open>The electrical level of a pin, as \<open>digitalRead\<close> sees it and \<open>digitalWrite\<close> drives it.\<close>

datatype level = Low | High

text \<open>The macros \<open>LOW\<close> (0x0) and \<open>HIGH\<close> (0x1) of Arduino.h, at any integer width.\<close>

definition LOW :: "'a::len word" where
  "LOW = 0"

definition HIGH :: "'a::len word" where
  "HIGH = 1"

text \<open>What \<open>digitalRead\<close> returns for a level.\<close>

definition level_val :: "level \<Rightarrow> 'a::len word" where
  "level_val l = (case l of Low \<Rightarrow> LOW | High \<Rightarrow> HIGH)"

text \<open>The level \<open>digitalWrite(pin, val)\<close> drives: low for 0, high for anything else.\<close>

definition level_of :: "'a::len word \<Rightarrow> level" where
  "level_of v = (if v = 0 then Low else High)"

text \<open>The operator \<open>!\<close> of C on an integer, its result converted back to an integer.\<close>

definition c_not :: "'a::len word \<Rightarrow> 'b::len word" where
  "c_not v = (if v = 0 then 1 else 0)"

text \<open>Division of \<open>long\<close> values in C: the quotient of the signed values, truncated towards zero.\<close>

definition c_div :: "32 word \<Rightarrow> 32 word \<Rightarrow> 32 word" where
  "c_div a b = word_of_int (sint a sdiv sint b)"

text \<open>
  Pins: the digital pin numbers the sketches write as plain integers (\<open>D n\<close>) and the
  board's analog aliases \<open>A0\<close>, \<open>A7\<close> (\<open>A n\<close>), whose numbers the board package defines.
\<close>

datatype pin = D nat | A nat

datatype pin_mode = INPUT | OUTPUT | INPUT_PULLUP | INPUT_PULLDOWN

datatype int_mode = RISING | FALLING | CHANGE

text \<open>
  Every call a sketch makes to the Arduino core or to the ESP-IDF is an event; a read
  carries the value it returned. GPIO numbers of the RTC calls are those of
  \<open>gpio_num_t\<close> (\<open>GPIO_NUM_0 + i\<close> is \<open>i\<close>).
\<close>

datatype event =
    Millis "32 word"
  | DigitalRead pin level
  | AnalogRead pin "32 word"
  | DigitalWrite pin level
  | PinMode pin pin_mode
  | AttachInterrupt pin string int_mode
  | Delay "32 word"
  | SerialBegin nat
  | SerialPrint string
  | SerialPrintln string
  | RtcGpioDeinit nat
  | RtcGpioInit nat
  | RtcGpioIsValidGpio nat
  | RtcGpioPullupDis nat
  | RtcGpioPulldownEn nat
  | EspSleepEnableExt0Wakeup nat nat
  | EspSleepGetWakeupCause
  | EspDeepSleepStart

text \<open>
  The part of the machine every sketch shares: the level each pin is driven to, and the
  calls made so far, oldest first. Each sketch extends it with its global variables.
\<close>

record hw =
  levels :: "pin \<Rightarrow> level"
  calls :: "event list"

definition emit :: "event \<Rightarrow> 'a hw_scheme \<Rightarrow> 'a hw_scheme" where
  "emit e s = s\<lparr>calls := calls s @ [e]\<rparr>"

definition digitalWrite :: "pin \<Rightarrow> 8 word \<Rightarrow> 'a hw_scheme \<Rightarrow> 'a hw_scheme" where
  "digitalWrite p val s =
     emit (DigitalWrite p (level_of val)) (s\<lparr>levels := (levels s)(p := level_of val)\<rparr>)"

definition pinMode :: "pin \<Rightarrow> pin_mode \<Rightarrow> 'a hw_scheme \<Rightarrow> 'a hw_scheme" where
  "pinMode p m s = emit (PinMode p m) s"

definition attachInterrupt :: "pin \<Rightarrow> string \<Rightarrow> int_mode \<Rightarrow> 'a hw_scheme \<Rightarrow> 'a hw_scheme" where
  "attachInterrupt p isr m s = emit (AttachInterrupt p isr m) s"

definition delay :: "32 word \<Rightarrow> 'a hw_scheme \<Rightarrow> 'a hw_scheme" where
  "delay ms s = emit (Delay ms) s"

definition Serial_begin :: "nat \<Rightarrow> 'a hw_scheme \<Rightarrow> 'a hw_scheme" where
  "Serial_begin baud s = emit (SerialBegin baud) s"

definition Serial_print :: "string \<Rightarrow> 'a hw_scheme \<Rightarrow> 'a hw_scheme" where
  "Serial_print str s = emit (SerialPrint str) s"

definition Serial_println :: "string \<Rightarrow> 'a hw_scheme \<Rightarrow> 'a hw_scheme" where
  "Serial_println str s = emit (SerialPrintln str) s"

definition esp_deep_sleep_start :: "'a hw_scheme \<Rightarrow> 'a hw_scheme" where
  "esp_deep_sleep_start s = emit EspDeepSleepStart s"

text \<open>The calls a step \<open>f\<close> adds when it runs from \<open>s\<close>.\<close>

definition new_calls :: "('a hw_scheme \<Rightarrow> 'a hw_scheme) \<Rightarrow> 'a hw_scheme \<Rightarrow> event list" where
  "new_calls f s = drop (length (calls s)) (calls (f s))"

text \<open>Statements in sequence.\<close>

definition run :: "('s \<Rightarrow> 's) list \<Rightarrow> 's \<Rightarrow> 's" where
  "run stmts s = fold (\<lambda>f. f) stmts s"

text \<open>\<open>String(n)\<close>: the decimal digits of a number.\<close>

definition digit_char :: "nat \<Rightarrow> char" where
  "digit_char d = char_of (48 + d)"

fun String_nat :: "nat \<Rightarrow> string" where
  "String_nat n =
     (if n < 10 then [digit_char n] else String_nat (n div 10) @ [digit_char (n mod 10)])"

declare String_nat.simps [simp del]

definition String_int :: "int \<Rightarrow> string" where
  "String_int k = (if k < 0 then CHR ''-'' # String_nat (nat (- k)) else String_nat (nat k))"


section \<open>test_sleep_mode_with_interrupt.ino\<close>

text \<open>
  As configured: \<open>DEBUG_MODE\<close> is defined (line 45); \<open>USE_INTERNAL_PULLUP_PULLDOWN\<close> is
  commented out (line 46). The closing brace of the \<open>for\<close> loop of \<open>init_rtc\<close> stands
  inside \<open>#ifdef DEBUG_MODE\<close>, so the sketch is only a program with \<open>DEBUG_MODE\<close>
  defined, and the debug branches are modelled as part of the code.
  \<open>USE_INTERNAL_PULLUP_PULLDOWN\<close> is a parameter of \<open>init_rtc\<close>.
\<close>

definition USE_INTERNAL_PULLUP_PULLDOWN :: bool where
  "USE_INTERNAL_PULLUP_PULLDOWN = False"

definition PIN_BUTTON_SLEEP :: pin where
  "PIN_BUTTON_SLEEP = D 4"

definition PIN_BUTTON_WAKEUP_ESP32 :: nat where
  "PIN_BUTTON_WAKEUP_ESP32 = 9"

definition PIN_LED :: pin where
  "PIN_LED = D 8"

definition DEBOUNCE_DELAY :: "32 word" where
  "DEBOUNCE_DELAY = 50"

record sleep_sketch = hw +
  lastEdgeTime_sleep :: "32 word"
  alreadySaidHello :: bool

text \<open>
  The globals at reset (also after a wake-up from deep sleep, which restarts the
  program): \<open>lastEdgeTime = 0\<close>, \<open>alreadySaidHello = false\<close>, nothing called yet.
  The levels of the pins at reset are the board's, a parameter.
\<close>

definition sleep_boot :: "(pin \<Rightarrow> level) \<Rightarrow> sleep_sketch" where
  "sleep_boot lv = \<lparr>levels = lv, calls = [], lastEdgeTime_sleep = 0, alreadySaidHello = False\<rparr>"

text \<open>
  \<open>handleSleepButton\<close> (lines 136-153). \<open>now\<close> is what \<open>millis()\<close> returns and \<open>btn\<close>
  the level of the sleep button pin when \<open>digitalRead\<close> reads it.
\<close>

definition handleSleepButton :: "32 word \<Rightarrow> level \<Rightarrow> sleep_sketch \<Rightarrow> sleep_sketch" where
  "handleSleepButton now btn s =
     (let currTime = now;
          s0 = emit (Millis now) s
      in if DEBOUNCE_DELAY < currTime - lastEdgeTime_sleep s0 then
           (let s1 = s0\<lparr>lastEdgeTime_sleep := currTime\<rparr>;
                s2 = emit (DigitalRead PIN_BUTTON_SLEEP btn) s1
            in if (level_val btn :: 32 word) = LOW then s2
               else
                 (let s3 = Serial_println
                        (''[handleSleepButton()] Button pushed -'' @ String_nat (unat currTime)
                           @ '' ms-'') s2;
                      s4 = Serial_println ''[handleSleepButton()] Time to go to bed...'' s3;
                      s5 = delay 2000 s4
                  in esp_deep_sleep_start s5))
         else s0)"

text \<open>
  The values of \<open>esp_err_t\<close> and \<open>esp_sleep_wakeup_cause_t\<close> that the sketch names
  (esp_err.h, esp_sleep.h of the ESP-IDF).
\<close>

definition ESP_OK :: int where
  "ESP_OK = 0"

definition ESP_ERR_INVALID_ARG :: int where
  "ESP_ERR_INVALID_ARG = 258"

definition ESP_ERR_INVALID_STATE :: int where
  "ESP_ERR_INVALID_STATE = 259"

definition ESP_SLEEP_WAKEUP_EXT0 :: int where
  "ESP_SLEEP_WAKEUP_EXT0 = 2"

definition ESP_SLEEP_WAKEUP_EXT1 :: int where
  "ESP_SLEEP_WAKEUP_EXT1 = 3"

definition ESP_SLEEP_WAKEUP_TIMER :: int where
  "ESP_SLEEP_WAKEUP_TIMER = 4"

definition ESP_SLEEP_WAKEUP_TOUCHPAD :: int where
  "ESP_SLEEP_WAKEUP_TOUCHPAD = 5"

definition ESP_SLEEP_WAKEUP_ULP :: int where
  "ESP_SLEEP_WAKEUP_ULP = 6"

text \<open>\<open>print_wakeup_reason\<close> (lines 166-180); \<open>cause\<close> is what \<open>esp_sleep_get_wakeup_cause()\<close> returns.\<close>

definition print_wakeup_reason :: "int \<Rightarrow> 'a hw_scheme \<Rightarrow> 'a hw_scheme" where
  "print_wakeup_reason cause s =
     (let wakeup_reason = cause;
          s0 = emit EspSleepGetWakeupCause s
      in if wakeup_reason = ESP_SLEEP_WAKEUP_EXT0 then
           Serial_println ''Wakeup caused by external signal using RTC_IO'' s0
         else if wakeup_reason = ESP_SLEEP_WAKEUP_EXT1 then
           Serial_println ''Wakeup caused by external signal using RTC_CNTL'' s0
         else if wakeup_reason = ESP_SLEEP_WAKEUP_TIMER then
           Serial_println ''Wakeup caused by timer'' s0
         else if wakeup_reason = ESP_SLEEP_WAKEUP_TOUCHPAD then
           Serial_println ''Wakeup caused by touchpad'' s0
         else if wakeup_reason = ESP_SLEEP_WAKEUP_ULP then
           Serial_println ''Wakeup caused by ULP program'' s0
         else
           Serial_print (''Wakeup was not caused by deep sleep: '' @ String_int wakeup_reason
                           @ [CHR 0x0A]) s0)"

text \<open>What the ESP-IDF calls of \<open>init_rtc\<close> return: the inputs of \<open>init_rtc\<close>.\<close>

record rtc_results =
  rtc_gpio_deinit_res :: "nat \<Rightarrow> int"
  rtc_gpio_is_valid_gpio_res :: bool
  rtc_gpio_pullup_dis_res :: int
  rtc_gpio_pulldown_en_res :: int
  esp_sleep_enable_ext0_wakeup_res :: int

text \<open>
  The \<open>for\<close> loop of \<open>init_rtc\<close> (lines 202-211), from counter \<open>i\<close> on; it carries the
  local \<open>esp_err\<close>.
\<close>

function init_rtc_loop :: "rtc_results \<Rightarrow> nat \<Rightarrow> int \<times> 'a hw_scheme \<Rightarrow> int \<times> 'a hw_scheme" where
  "init_rtc_loop r i (esp_err, s) =
     (if i < 22 then
        (if i = 15 \<or> i = 16 then init_rtc_loop r (i + 1) (esp_err, s)
         else
           (let e = rtc_gpio_deinit_res r i;
                s1 = emit (RtcGpioDeinit i) s;
                s2 = (if e = ESP_OK then
                        Serial_println (''Successfully unlinked RTC_GPIO'' @ String_nat i
                                          @ '' from RTC.'') s1
                      else
                        Serial_println (''Failed to unlink RTC_GPIO'' @ String_nat i
                                          @ '' from RTC.'') s1)
            in init_rtc_loop r (i + 1) (e, s2)))
      else (esp_err, s))"
  by pat_completeness auto
termination
  by (relation "measure (\<lambda>(r, i, p). 22 - i)") auto

declare init_rtc_loop.simps [simp del]

text \<open>
  The pull resistor step of \<open>init_rtc\<close> (lines 229-249), compiled only when
  \<open>USE_INTERNAL_PULLUP_PULLDOWN\<close> is defined.
\<close>

definition init_rtc_pull :: "rtc_results \<Rightarrow> 'a hw_scheme \<Rightarrow> 'a hw_scheme" where
  "init_rtc_pull r s =
     (let e1 = rtc_gpio_pullup_dis_res r;
          s1 = emit (RtcGpioPullupDis PIN_BUTTON_WAKEUP_ESP32) s;
          s2 = (if e1 = ESP_OK then
                  Serial_println ''Successfully disable pullup resistor on RTC_GPIO9'' s1
                else Serial_println ''Failed to disable pullup resistor on RTC_GPIO9'' s1);
          e2 = rtc_gpio_pulldown_en_res r;
          s3 = emit (RtcGpioPulldownEn PIN_BUTTON_WAKEUP_ESP32) s2
      in if e2 = ESP_OK then
           Serial_println ''Successfully enable pulldown resistor on RTC_GPIO9'' s3
         else Serial_println ''Failed to enable pulldown resistor on RTC_GPIO9'' s3)"

text \<open>
  \<open>init_rtc\<close> (lines 197-269). \<open>use_pull\<close> says whether
  \<open>USE_INTERNAL_PULLUP_PULLDOWN\<close> is defined. The local \<open>esp_err\<close> is declared without
  a value and first assigned in the loop (at \<open>i = 0\<close>) before it is read; it starts here
  at 0. The result of \<open>rtc_gpio_init\<close> is not assigned (line 213), so the message that
  follows tests the result of the last \<open>rtc_gpio_deinit\<close>.
\<close>

definition init_rtc :: "bool \<Rightarrow> rtc_results \<Rightarrow> 'a hw_scheme \<Rightarrow> 'a hw_scheme" where
  "init_rtc use_pull r s =
     (let (esp_err, s1) = init_rtc_loop r 0 (0, s);
          s2 = emit (RtcGpioInit PIN_BUTTON_WAKEUP_ESP32) s1;
          s3 = (if esp_err = ESP_OK then Serial_println ''Successfully linked RTC_GPIO9 to RTC.'' s2
                else Serial_println ''Failed to link RTC_GPIO9 to RTC.'' s2);
          s4 = emit (RtcGpioIsValidGpio PIN_BUTTON_WAKEUP_ESP32) s3;
          s5 = (if \<not> rtc_gpio_is_valid_gpio_res r then
                  Serial_println ''GPIO9 cannot be used for RTC'' s4
                else s4);
          s6 = (if use_pull then init_rtc_pull r s5 else s5);
          e = esp_sleep_enable_ext0_wakeup_res r;
          s7 = emit (EspSleepEnableExt0Wakeup PIN_BUTTON_WAKEUP_ESP32 1) s6
      in if e = ESP_OK then Serial_println ''Successfully set up the wake up source'' s7
         else if e = ESP_ERR_INVALID_ARG then
           Serial_println
             ''Failed to set up the wake up source: the selected GPIO is not an RTC GPIO, or the mode is invalid''
             s7
         else if e = ESP_ERR_INVALID_STATE then
           Serial_println ''Failed to set up the wake up source: wakeup triggers conflict'' s7
         else Serial_println ''Failed to set up the wake up source: unknown reason'' s7)"

text \<open>
  \<open>setup\<close> (lines 81-99), statement by statement: the interrupt handler is attached
  (line 95) before \<open>init_rtc\<close> is called (line 98).
\<close>

definition setup_sleep_stmts :: "int \<Rightarrow> rtc_results \<Rightarrow> (sleep_sketch \<Rightarrow> sleep_sketch) list" where
  "setup_sleep_stmts cause r =
     [Serial_begin 9600,
      delay 1000,
      Serial_println (CHR 0x0A # ''- New execution -'' @ [CHR 0x0A]),
      print_wakeup_reason cause,
      pinMode PIN_BUTTON_SLEEP INPUT_PULLDOWN,
      pinMode PIN_LED OUTPUT,
      attachInterrupt PIN_BUTTON_SLEEP ''handleSleepButton'' RISING,
      init_rtc USE_INTERNAL_PULLUP_PULLDOWN r]"

definition setup_sleep :: "int \<Rightarrow> rtc_results \<Rightarrow> sleep_sketch \<Rightarrow> sleep_sketch" where
  "setup_sleep cause r s = run (setup_sleep_stmts cause r) s"

text \<open>
  Interrupts. Once \<open>attachInterrupt\<close> has registered \<open>handleSleepButton\<close>, a rising
  edge on the button runs the handler between two statements of the main program;
  \<open>esp_deep_sleep_start\<close> does not return, so the program stops there.
  \<open>run_interrupted stmts k isr s\<close> runs the statements with one interrupt arriving
  after the first \<open>k\<close> of them.
\<close>

definition isr_attached :: "'a hw_scheme \<Rightarrow> bool" where
  "isr_attached s =
     (AttachInterrupt PIN_BUTTON_SLEEP ''handleSleepButton'' RISING \<in> set (calls s))"

definition asleep :: "'a hw_scheme \<Rightarrow> bool" where
  "asleep s = (EspDeepSleepStart \<in> set (calls s))"

definition run_interrupted ::
  "(sleep_sketch \<Rightarrow> sleep_sketch) list \<Rightarrow> nat \<Rightarrow> (sleep_sketch \<Rightarrow> sleep_sketch)
     \<Rightarrow> sleep_sketch \<Rightarrow> sleep_sketch" where
  "run_interrupted stmts k isr s =
     (let s1 = run (take k stmts) s
      in if isr_attached s1 then
           (let s2 = isr s1 in if asleep s2 then s2 else run (drop k stmts) s2)
         else run (drop k stmts) s1)"

text \<open>The ESP-IDF calls among a list of calls, and an input where every call succeeds.\<close>

fun is_idf_call :: "event \<Rightarrow> bool" where
  "is_idf_call (RtcGpioDeinit n) = True"
| "is_idf_call (RtcGpioInit n) = True"
| "is_idf_call (RtcGpioIsValidGpio n) = True"
| "is_idf_call (RtcGpioPullupDis n) = True"
| "is_idf_call (RtcGpioPulldownEn n) = True"
| "is_idf_call (EspSleepEnableExt0Wakeup n l) = True"
| "is_idf_call EspSleepGetWakeupCause = True"
| "is_idf_call EspDeepSleepStart = True"
| "is_idf_call e = False"

definition rtc_all_ok :: rtc_results where
  "rtc_all_ok = \<lparr>rtc_gpio_deinit_res = (\<lambda>i. ESP_OK), rtc_gpio_is_valid_gpio_res = True,
     rtc_gpio_pullup_dis_res = ESP_OK, rtc_gpio_pulldown_en_res = ESP_OK,
     esp_sleep_enable_ext0_wakeup_res = ESP_OK\<rparr>"



section \<open>Test_command_relay_with_push_button.ino\<close>

text \<open>As configured: \<open>DEBUG\<close> is defined (line 31).\<close>

definition PIN_PUSH_BUTTON :: pin where
  "PIN_PUSH_BUTTON = D 2"

definition PIN_RELAY_button :: pin where
  "PIN_RELAY_button = D 7"

record button_sketch = hw +
  lastEdgeTime_button :: "32 word"
  debounceDelay :: "32 word"

definition button_boot :: "(pin \<Rightarrow> level) \<Rightarrow> button_sketch" where
  "button_boot lv = \<lparr>levels = lv, calls = [], lastEdgeTime_button = 0, debounceDelay = 50\<rparr>"

text \<open>\<open>setup\<close> (lines 58-68).\<close>

definition setup_button :: "button_sketch \<Rightarrow> button_sketch" where
  "setup_button s =
     run [pinMode PIN_PUSH_BUTTON INPUT,
          pinMode PIN_RELAY_button OUTPUT,
          attachInterrupt PIN_PUSH_BUTTON ''handleButton'' CHANGE,
          Serial_begin 9600,
          digitalWrite PIN_RELAY_button HIGH] s"

text \<open>
  \<open>handleButton\<close> (lines 95-118). \<open>pushButtState\<close> is a \<open>byte\<close>; \<open>!pushButtState\<close> is
  what is written to the relay.
\<close>

definition handleButton :: "32 word \<Rightarrow> level \<Rightarrow> button_sketch \<Rightarrow> button_sketch" where
  "handleButton now btn s =
     (let currTime = now;
          s0 = emit (Millis now) s;
          s1 = Serial_println (''[handleButton()] Button changed -'' @ String_nat (unat currTime)
                                 @ '' ms-'') s0
      in if debounceDelay s1 < currTime - lastEdgeTime_button s1 then
           (let s2 = s1\<lparr>lastEdgeTime_button := currTime\<rparr>;
                pushButtState = (level_val btn :: 8 word);
                s3 = emit (DigitalRead PIN_PUSH_BUTTON btn) s2;
                s4 = digitalWrite PIN_RELAY_button (c_not pushButtState) s3
            in Serial_println ''[handleButton()] Relay activated/deactivated.'' s4)
         else s1)"


section \<open>main.ino\<close>

text \<open>
  The second file of src/unnamed/part_000 (from its line 34 on). As configured,
  \<open>DEBUG_MODE\<close> is commented out (line 75); the functions take it as the parameter \<open>dbg\<close>.
\<close>

definition DEBUG_MODE_main :: bool where
  "DEBUG_MODE_main = False"

definition PIN_PUMP_BUTTON :: pin where
  "PIN_PUMP_BUTTON = D 4"

definition PIN_MOIST_SENSOR :: pin where
  "PIN_MOIST_SENSOR = A 0"

definition PIN_LED_Y :: pin where
  "PIN_LED_Y = D 6"

definition PIN_LED_G :: pin where
  "PIN_LED_G = D 8"

definition PIN_RELAY_main :: pin where
  "PIN_RELAY_main = D 12"

definition BASE_DRY_THRESHOLD :: "32 word" where
  "BASE_DRY_THRESHOLD = 1900"

definition POLLING_PERIOD_M :: "32 word" where
  "POLLING_PERIOD_M = 30"

definition DEBOUNCE_DELAY_main :: "32 word" where
  "DEBOUNCE_DELAY_main = 50"

text \<open>The debounce timestamp is an \<open>unsigned short\<close> (line 101).\<close>

record main_sketch = hw +
  lastEdgeTime_main :: "16 word"

definition main_boot :: "(pin \<Rightarrow> level) \<Rightarrow> main_sketch" where
  "main_boot lv = \<lparr>levels = lv, calls = [], lastEdgeTime_main = 0\<rparr>"

text \<open>\<open>setup\<close> of main.ino.\<close>

definition setup_main :: "bool \<Rightarrow> main_sketch \<Rightarrow> main_sketch" where
  "setup_main dbg s =
     run ([pinMode PIN_PUMP_BUTTON INPUT_PULLDOWN,
           pinMode PIN_MOIST_SENSOR INPUT,
           pinMode PIN_RELAY_main OUTPUT,
           pinMode PIN_LED_G OUTPUT,
           pinMode PIN_LED_Y OUTPUT,
           digitalWrite PIN_LED_G LOW,
           digitalWrite PIN_LED_Y LOW,
           attachInterrupt PIN_PUMP_BUTTON ''handlePumpButton'' CHANGE]
          @ (if dbg then [Serial_begin 9600] else [])) s"

text \<open>\<open>isSoilDry\<close>; \<open>reading\<close> is what \<open>analogRead\<close> returns, stored in the \<open>int valSensor\<close>.\<close>

definition isSoilDry :: "bool \<Rightarrow> 32 word \<Rightarrow> 'a hw_scheme \<Rightarrow> bool \<times> 'a hw_scheme" where
  "isSoilDry dbg reading s =
     (let valSensor = reading;
          s1 = emit (AnalogRead PIN_MOIST_SENSOR reading) s;
          s2 = (if dbg then
                  Serial_println (''isSoilDry(): valSensor = '' @ String_int (sint valSensor)) s1
                else s1)
      in (sint BASE_DRY_THRESHOLD < sint valSensor, s2))"

text \<open>\<open>actionPump\<close>: the relay is active low.\<close>

definition actionPump :: "bool \<Rightarrow> bool \<Rightarrow> 'a hw_scheme \<Rightarrow> 'a hw_scheme" where
  "actionPump dbg toActivate s =
     (if toActivate then
        (let s1 = digitalWrite PIN_RELAY_main LOW s
         in if dbg then Serial_println ''actionPump(): Pump activated!'' s1 else s1)
      else
        (let s1 = digitalWrite PIN_RELAY_main HIGH s
         in if dbg then Serial_println ''actionPump(): Pump deactivated!'' s1 else s1))"

text \<open>\<open>loop\<close> of main.ino; \<open>reading\<close> is the value its one \<open>analogRead\<close> returns.\<close>

definition loop_main :: "bool \<Rightarrow> 32 word \<Rightarrow> 'a hw_scheme \<Rightarrow> 'a hw_scheme" where
  "loop_main dbg reading s =
     (let (dry, s1) = isSoilDry dbg reading s;
          s2 = (if dry then
                  (let a = (if dbg then Serial_println ''loop(): The soil is dry!'' s1 else s1);
                       b = digitalWrite PIN_LED_Y HIGH a;
                       c = actionPump dbg True b;
                       d = digitalWrite PIN_LED_G HIGH c;
                       e = delay 5000 d;
                       f = actionPump dbg False e
                   in digitalWrite PIN_LED_G LOW f)
                else digitalWrite PIN_LED_Y LOW s1)
      in if dbg then delay 5000 s2 else delay (POLLING_PERIOD_M * 3600) s2)"

text \<open>
  \<open>handlePumpButton\<close>. In \<open>currTime - lastEdgeTime\<close> the \<open>unsigned short\<close> is converted
  to \<open>unsigned long\<close>; \<open>lastEdgeTime = currTime\<close> keeps the low 16 bits.
  \<open>pushButtState\<close> is a \<open>bool\<close>.
\<close>

definition handlePumpButton :: "bool \<Rightarrow> 32 word \<Rightarrow> level \<Rightarrow> main_sketch \<Rightarrow> main_sketch" where
  "handlePumpButton dbg now btn s =
     (let currTime = now;
          s0 = emit (Millis now) s;
          s1 = (if dbg then Serial_println ''handlePumpButton(): In the ISR!'' s0 else s0)
      in if DEBOUNCE_DELAY_main < currTime - ucast (lastEdgeTime_main s1) then
           (let s2 = s1\<lparr>lastEdgeTime_main := ucast currTime\<rparr>;
                pushButtState = ((level_val btn :: 32 word) \<noteq> 0);
                s3 = emit (DigitalRead PIN_PUMP_BUTTON btn) s2;
                s4 = digitalWrite PIN_RELAY_main (of_bool (\<not> pushButtState)) s3;
                s5 = digitalWrite PIN_LED_G (of_bool pushButtState) s4
            in if dbg then Serial_println ''handlePumpButton(): User force the pump!'' s5 else s5)
         else s1)"

text \<open>
  \<open>loop\<close> of main.ino statement by statement, for the reading \<open>reading\<close> of its
  \<open>analogRead\<close>: the first statement is the call of \<open>isSoilDry\<close>, whose result
  (\<open>valSensor > BASE_DRY_THRESHOLD\<close>) selects the branch.
\<close>

definition loop_main_stmts :: "bool \<Rightarrow> 32 word \<Rightarrow> (main_sketch \<Rightarrow> main_sketch) list" where
  "loop_main_stmts dbg reading =
     (\<lambda>s. snd (isSoilDry dbg reading s)) #
     (if sint BASE_DRY_THRESHOLD < sint reading then
        (if dbg then [Serial_println ''loop(): The soil is dry!''] else []) @
        [digitalWrite PIN_LED_Y HIGH,
         actionPump dbg True,
         digitalWrite PIN_LED_G HIGH,
         delay 5000,
         actionPump dbg False,
         digitalWrite PIN_LED_G LOW]
      else [digitalWrite PIN_LED_Y LOW]) @
     [if dbg then delay 5000 else delay (POLLING_PERIOD_M * 3600)]"

text \<open>
  Interrupts in main.ino. \<open>setup\<close> attaches \<open>handlePumpButton\<close> to every change of
  the push button, so the handler can run between any two statements of \<open>loop\<close> and
  while a \<open>delay\<close> waits. \<open>run_handlers\<close> runs a sequence of handler calls, each
  with the value of \<open>millis()\<close> and the level of the button it reads.
  \<open>run_interleaved dbg hs k stmts s\<close> runs the statements in order; \<open>hs j\<close> are the
  handler calls that arrive once statement number \<open>j\<close> (counted from \<open>k\<close>) has been
  called and before the next statement: for a \<open>delay\<close>, the calls that arrive during it.
\<close>

fun run_handlers :: "bool \<Rightarrow> (32 word \<times> level) list \<Rightarrow> main_sketch \<Rightarrow> main_sketch" where
  "run_handlers dbg [] s = s"
| "run_handlers dbg ((now, btn) # hs) s = run_handlers dbg hs (handlePumpButton dbg now btn s)"

fun run_interleaved ::
  "bool \<Rightarrow> (nat \<Rightarrow> (32 word \<times> level) list) \<Rightarrow> nat \<Rightarrow> (main_sketch \<Rightarrow> main_sketch) list
     \<Rightarrow> main_sketch \<Rightarrow> main_sketch" where
  "run_interleaved dbg hs k [] s = s"
| "run_interleaved dbg hs k (f # fs) s =
     run_interleaved dbg hs (Suc k) fs (run_handlers dbg (hs k) (f s))"


section \<open>Test_command_relay.ino\<close>

definition PIN_RELAY_relay :: pin where
  "PIN_RELAY_relay = D 7"

record relay_sketch = hw +
  relayState :: "8 word"

definition relay_boot :: "(pin \<Rightarrow> level) \<Rightarrow> relay_sketch" where
  "relay_boot lv = \<lparr>levels = lv, calls = [], relayState = HIGH\<rparr>"

definition setup_relay :: "relay_sketch \<Rightarrow> relay_sketch" where
  "setup_relay s = run [pinMode PIN_RELAY_relay OUTPUT, Serial_begin 9600] s"

text \<open>\<open>loop\<close> (lines 16-22); \<open>Serial.println\<close> of a \<open>byte\<close> prints it as a number.\<close>

definition loop_relay :: "relay_sketch \<Rightarrow> relay_sketch" where
  "loop_relay s =
     (let s1 = s\<lparr>relayState := c_not (relayState s)\<rparr>;
          s2 = Serial_print ''[loop()] Relay State -'' s1;
          s3 = Serial_println (String_nat (unat (relayState s2))) s2;
          s4 = digitalWrite PIN_RELAY_relay (relayState s3) s3
      in delay 10000 s4)"

text \<open>The levels written to a pin by a list of calls, in order.\<close>

fun written_level :: "pin \<Rightarrow> event \<Rightarrow> level list" where
  "written_level p (DigitalWrite q l) = (if q = p then [l] else [])"
| "written_level p e = []"

definition writes_to :: "pin \<Rightarrow> event list \<Rightarrow> level list" where
  "writes_to p tr = concat (map (written_level p) tr)"


section \<open>Moist_sensor_calibration.ino\<close>

definition PIN_SENSOR :: pin where
  "PIN_SENSOR = A 0"

text \<open>
  Modelled from the spec: \<open>map\<close> is the Arduino core's function, not part of the
  repository; the spec gives \<open>map(val, 1100, 3500, 0, 100)\<close> as
  \<open>(val - 1100) * 100 / 2400\<close> in integer arithmetic, the instance of the linear
  rescaling \<open>(x - in_min) * (out_max - out_min) / (in_max - in_min) + out_min\<close> on
  \<open>long\<close> values.
\<close>

definition map_arduino :: "32 word \<Rightarrow> 32 word \<Rightarrow> 32 word \<Rightarrow> 32 word \<Rightarrow> 32 word \<Rightarrow> 32 word" where
  "map_arduino x in_min in_max out_min out_max =
     c_div ((x - in_min) * (out_max - out_min)) (in_max - in_min) + out_min"

definition calibration_boot :: "(pin \<Rightarrow> level) \<Rightarrow> hw" where
  "calibration_boot lv = \<lparr>levels = lv, calls = []\<rparr>"

definition setup_calibration :: "'a hw_scheme \<Rightarrow> 'a hw_scheme" where
  "setup_calibration s = Serial_begin 9600 s"

text \<open>\<open>loop\<close> (lines 55-64); \<open>reading\<close> is the value its one \<open>analogRead\<close> returns.\<close>

definition loop_calibration :: "32 word \<Rightarrow> 'a hw_scheme \<Rightarrow> 'a hw_scheme" where
  "loop_calibration reading s =
     (let s1 = emit (AnalogRead PIN_SENSOR reading) s;
          val = reading;
          perc = map_arduino val 1100 3500 0 100;
          s2 = Serial_println (''Sensor value: '' @ String_int (sint val)) s1;
          s3 = Serial_println (''Expressed in percentage: '' @ String_int (sint perc)) s2
      in delay 1000 s3)"

section \<open>Call sequences used in the statements\<close>

text \<open>
  The calls the \<open>for\<close> loop of \<open>init_rtc\<close> makes from counter \<open>i\<close> on: for each GPIO
  but 15 and 16, \<open>rtc_gpio_deinit\<close> and the debug line on its result.
\<close>

definition deinit_calls :: "rtc_results \<Rightarrow> nat \<Rightarrow> event list" where
  "deinit_calls r i =
     concat (map (\<lambda>k. [RtcGpioDeinit k,
                        SerialPrintln (if rtc_gpio_deinit_res r k = ESP_OK
                          then ''Successfully unlinked RTC_GPIO'' @ String_nat k @ '' from RTC.''
                          else ''Failed to unlink RTC_GPIO'' @ String_nat k @ '' from RTC.'')])
                 (filter (\<lambda>k. k \<noteq> 15 \<and> k \<noteq> 16) [i..<22]))"

text \<open>The calls of the pull resistor step.\<close>

definition pull_calls :: "rtc_results \<Rightarrow> event list" where
  "pull_calls r =
     [RtcGpioPullupDis PIN_BUTTON_WAKEUP_ESP32,
      SerialPrintln (if rtc_gpio_pullup_dis_res r = ESP_OK
        then ''Successfully disable pullup resistor on RTC_GPIO9''
        else ''Failed to disable pullup resistor on RTC_GPIO9''),
      RtcGpioPulldownEn PIN_BUTTON_WAKEUP_ESP32,
      SerialPrintln (if rtc_gpio_pulldown_en_res r = ESP_OK
        then ''Successfully enable pulldown resistor on RTC_GPIO9''
        else ''Failed to enable pulldown resistor on RTC_GPIO9'')]"

text \<open>
  What \<open>handlePumpButton\<close> reads and writes of the state of main.ino besides the record
  of calls: the levels of the relay and of the green LED, and \<open>lastEdgeTime\<close>.
\<close>

definition pump_view :: "main_sketch \<Rightarrow> level \<times> level \<times> 16 word" where
  "pump_view s = (levels s PIN_RELAY_main, levels s PIN_LED_G, lastEdgeTime_main s)"


section \<open>The calls of the core functions and of init_rtc\<close>

lemma calls_emit: "calls (emit e s) = calls s @ [e]"
  by (simp add: emit_def)

lemma levels_emit: "levels (emit e s) = levels s"
  by (simp add: emit_def)

lemma calls_Serial_println: "calls (Serial_println str s) = calls s @ [SerialPrintln str]"
  by (simp add: Serial_println_def calls_emit)

lemma calls_Serial_print: "calls (Serial_print str s) = calls s @ [SerialPrint str]"
  by (simp add: Serial_print_def calls_emit)

lemma calls_delay: "calls (delay ms s) = calls s @ [Delay ms]"
  by (simp add: delay_def calls_emit)

lemma calls_digitalWrite: "calls (digitalWrite p v s) = calls s @ [DigitalWrite p (level_of v)]"
  by (simp add: digitalWrite_def calls_emit)

lemma levels_digitalWrite: "levels (digitalWrite p v s) = (levels s)(p := level_of v)"
  by (simp add: digitalWrite_def levels_emit)

lemma new_calls_append: "calls (f s) = calls s @ tr \<Longrightarrow> new_calls f s = tr"
  by (simp add: new_calls_def)

lemma init_rtc_loop_calls:
  "calls (snd (init_rtc_loop r i p)) = calls (snd p) @ deinit_calls r i"
proof (induction r i p rule: init_rtc_loop.induct)
  case (1 r i esp_err s)
  show ?case
  proof (cases "i < 22")
    case False
    then show ?thesis
      by (simp add: init_rtc_loop.simps [of r i] deinit_calls_def)
  next
    case lt: True
    then have upt: "[i..<22] = i # [i + 1..<22]"
      by (simp add: upt_conv_Cons)
    show ?thesis
    proof (cases "i = 15 \<or> i = 16")
      case True
      with lt "1.IH"(1) show ?thesis
        by (simp add: init_rtc_loop.simps [of r i] deinit_calls_def upt del: upt_Suc)
    next
      case False
      with lt "1.IH"(2) show ?thesis
        apply (simp add: init_rtc_loop.simps [of r i] deinit_calls_def upt Let_def calls_Serial_println calls_emit del: upt_Suc)
        done
    qed
  qed
qed


lemma idf_deinit_calls:
  "filter is_idf_call (deinit_calls r i) =
     map RtcGpioDeinit (filter (\<lambda>k. k \<noteq> 15 \<and> k \<noteq> 16) [i..<22])"
proof -
  have "filter is_idf_call (concat (map (\<lambda>k. [RtcGpioDeinit k, SerialPrintln (g k)]) ks))
          = map RtcGpioDeinit ks" for g :: "nat \<Rightarrow> string" and ks
    by (induction ks) simp_all
  then show ?thesis
    unfolding deinit_calls_def .
qed

lemma rtc_gpio_numbers:
  "filter (\<lambda>k. k \<noteq> 15 \<and> k \<noteq> 16) [0..<22] = [0..<15] @ [17..<22]"
  by (simp add: upt_rec)

lemma init_rtc_pull_calls: "calls (init_rtc_pull r s) = calls s @ pull_calls r"
  by (simp add: init_rtc_pull_def pull_calls_def Let_def calls_Serial_println calls_emit)

lemma init_rtc_calls:
  "\<exists>m1 m2 m3. calls (init_rtc use_pull r s) =
     calls s @ deinit_calls r 0
       @ [RtcGpioInit PIN_BUTTON_WAKEUP_ESP32, SerialPrintln m1,
          RtcGpioIsValidGpio PIN_BUTTON_WAKEUP_ESP32]
       @ map SerialPrintln m2
       @ (if use_pull then pull_calls r else [])
       @ [EspSleepEnableExt0Wakeup PIN_BUTTON_WAKEUP_ESP32 1, SerialPrintln m3]"
proof -
  obtain e s1 where loop: "init_rtc_loop r 0 (0, s) = (e, s1)"
    by (cases "init_rtc_loop r 0 (0, s)")
  have s1: "calls s1 = calls s @ deinit_calls r 0"
    using init_rtc_loop_calls [of r 0 "(0, s)"] loop by simp
  show ?thesis
    apply (rule exI [of _ "if e = ESP_OK then ''Successfully linked RTC_GPIO9 to RTC.''
                           else ''Failed to link RTC_GPIO9 to RTC.''"])
    apply (rule exI [of _ "if \<not> rtc_gpio_is_valid_gpio_res r
                           then [''GPIO9 cannot be used for RTC''] else []"])
    apply (rule exI [of _ "if esp_sleep_enable_ext0_wakeup_res r = ESP_OK
        then ''Successfully set up the wake up source''
        else if esp_sleep_enable_ext0_wakeup_res r = ESP_ERR_INVALID_ARG
        then ''Failed to set up the wake up source: the selected GPIO is not an RTC GPIO, or the mode is invalid''
        else if esp_sleep_enable_ext0_wakeup_res r = ESP_ERR_INVALID_STATE
        then ''Failed to set up the wake up source: wakeup triggers conflict''
        else ''Failed to set up the wake up source: unknown reason''"])
    apply (simp add: init_rtc_def loop Let_def calls_Serial_println calls_emit s1
        init_rtc_pull_calls)
    done
qed

lemma init_rtc_idf_calls:
  "filter is_idf_call (new_calls (init_rtc use_pull r) s) =
     map RtcGpioDeinit ([0..<15] @ [17..<22])
       @ [RtcGpioInit PIN_BUTTON_WAKEUP_ESP32, RtcGpioIsValidGpio PIN_BUTTON_WAKEUP_ESP32]
       @ (if use_pull then [RtcGpioPullupDis PIN_BUTTON_WAKEUP_ESP32,
                            RtcGpioPulldownEn PIN_BUTTON_WAKEUP_ESP32] else [])
       @ [EspSleepEnableExt0Wakeup PIN_BUTTON_WAKEUP_ESP32 1]"
proof -
  obtain m1 m2 m3 where c: "calls (init_rtc use_pull r s) =
     calls s @ (deinit_calls r 0
       @ [RtcGpioInit PIN_BUTTON_WAKEUP_ESP32, SerialPrintln m1,
          RtcGpioIsValidGpio PIN_BUTTON_WAKEUP_ESP32]
       @ map SerialPrintln m2
       @ (if use_pull then pull_calls r else [])
       @ [EspSleepEnableExt0Wakeup PIN_BUTTON_WAKEUP_ESP32 1, SerialPrintln m3])"
    using init_rtc_calls [of use_pull r s] by auto
  have m2: "filter is_idf_call (map SerialPrintln m2) = []"
    by (induction m2) simp_all
  show ?thesis
    unfolding new_calls_def c
    by (simp add: idf_deinit_calls rtc_gpio_numbers m2 pull_calls_def del: upt_Suc)
qed

section \<open>test_sleep_mode_with_interrupt.ino: init_rtc and the sleep button\<close>

lemma init_rtc_no_pull:
  "RtcGpioPullupDis g \<notin> set (new_calls (init_rtc False r) s) \<and>
   RtcGpioPulldownEn g \<notin> set (new_calls (init_rtc False r) s)"
proof -
  have up: "RtcGpioPullupDis g \<notin> set (filter is_idf_call (new_calls (init_rtc False r) s))"
    by (auto simp add: init_rtc_idf_calls simp del: upt_Suc)
  have down: "RtcGpioPulldownEn g \<notin> set (filter is_idf_call (new_calls (init_rtc False r) s))"
    by (auto simp add: init_rtc_idf_calls simp del: upt_Suc)
  from up down show ?thesis
    by simp
qed

text \<open>
  C1 (as amended). Whatever the ESP-IDF calls return and from any state, the ESP-IDF
  calls that \<open>init_rtc\<close> makes as configured are, in this order: \<open>rtc_gpio_deinit\<close> on
  the GPIOs 0 to 14 and 17 to 21 (every number from 0 to 21 except 15 and 16), then
  \<open>rtc_gpio_init\<close> on GPIO 9, then the check \<open>rtc_gpio_is_valid_gpio\<close> on GPIO 9, and
  last \<open>esp_sleep_enable_ext0_wakeup(GPIO_NUM_9, 1)\<close>. \<open>init_rtc\<close> itself never calls
  \<open>esp_deep_sleep_start\<close>. Nothing is said here about the sequence running before any
  entry into deep sleep: \<open>setup\<close> attaches \<open>handleSleepButton\<close> before it calls
  \<open>init_rtc\<close>.
\<close>

theorem init_rtc_order:
  "filter is_idf_call (new_calls (init_rtc USE_INTERNAL_PULLUP_PULLDOWN r) s) =
     map RtcGpioDeinit ([0..<15] @ [17..<22])
       @ [RtcGpioInit PIN_BUTTON_WAKEUP_ESP32, RtcGpioIsValidGpio PIN_BUTTON_WAKEUP_ESP32,
          EspSleepEnableExt0Wakeup PIN_BUTTON_WAKEUP_ESP32 1]
   \<and> PIN_BUTTON_WAKEUP_ESP32 = 9"
  by (simp add: init_rtc_idf_calls USE_INTERNAL_PULLUP_PULLDOWN_def PIN_BUTTON_WAKEUP_ESP32_def
      del: upt_Suc)

text \<open>The sequence when every call succeeds, from reset.\<close>

theorem init_rtc_order_witness:
  "filter is_idf_call (new_calls (init_rtc USE_INTERNAL_PULLUP_PULLDOWN rtc_all_ok)
       (sleep_boot (\<lambda>p. Low))) =
     map RtcGpioDeinit [0, 1, 2, 3, 4, 5, 6, 7, 8, 9, 10, 11, 12, 13, 14, 17, 18, 19, 20, 21]
       @ [RtcGpioInit 9, RtcGpioIsValidGpio 9, EspSleepEnableExt0Wakeup 9 1]"
  using init_rtc_order [of rtc_all_ok "sleep_boot (\<lambda>p. Low)"]
  by (simp add: upt_rec)

text \<open>
  C1 as stated fails: deep sleep can be entered before any step of \<open>init_rtc\<close>. In
  \<open>setup\<close>, a press of the sleep button after \<open>attachInterrupt\<close> (the seventh
  statement) and before \<open>init_rtc\<close> (the eighth), at \<open>millis() = 1003\<close> with the pin
  high, runs \<open>handleSleepButton\<close>, which calls \<open>esp_deep_sleep_start\<close>: the wake
  source has not been armed and GPIO 9 has not been linked to the RTC.
\<close>

theorem sleep_before_init_rtc_counterexample:
  "EspDeepSleepStart \<in> set (calls (run_interrupted (setup_sleep_stmts 0 rtc_all_ok) 7
       (handleSleepButton 1003 High) (sleep_boot (\<lambda>p. Low))))
   \<and> EspSleepEnableExt0Wakeup PIN_BUTTON_WAKEUP_ESP32 1 \<notin>
       set (calls (run_interrupted (setup_sleep_stmts 0 rtc_all_ok) 7
         (handleSleepButton 1003 High) (sleep_boot (\<lambda>p. Low))))
   \<and> RtcGpioInit PIN_BUTTON_WAKEUP_ESP32 \<notin>
       set (calls (run_interrupted (setup_sleep_stmts 0 rtc_all_ok) 7
         (handleSleepButton 1003 High) (sleep_boot (\<lambda>p. Low))))"
  by (simp add: run_interrupted_def run_def setup_sleep_stmts_def sleep_boot_def
      handleSleepButton_def isr_attached_def asleep_def Let_def emit_def Serial_begin_def
      delay_def Serial_println_def Serial_print_def print_wakeup_reason_def pinMode_def
      attachInterrupt_def esp_deep_sleep_start_def DEBOUNCE_DELAY_def level_val_def
      LOW_def HIGH_def ESP_SLEEP_WAKEUP_EXT0_def ESP_SLEEP_WAKEUP_EXT1_def
      ESP_SLEEP_WAKEUP_TIMER_def ESP_SLEEP_WAKEUP_TOUCHPAD_def ESP_SLEEP_WAKEUP_ULP_def)

text \<open>
  C2 (as amended). \<open>init_rtc\<close> performs the pull resistor step only when
  \<open>USE_INTERNAL_PULLUP_PULLDOWN\<close> is defined: then \<open>rtc_gpio_pullup_dis\<close> and
  \<open>rtc_gpio_pulldown_en\<close> are called on GPIO 9, in this order, after
  \<open>rtc_gpio_init\<close> and before \<open>esp_sleep_enable_ext0_wakeup\<close>. When it is not defined,
  neither is called on any GPIO; and as configured it is not defined.
\<close>

theorem init_rtc_pull_step:
  "(use_pull \<longrightarrow>
      filter is_idf_call (new_calls (init_rtc use_pull r) s) =
        map RtcGpioDeinit ([0..<15] @ [17..<22])
          @ [RtcGpioInit PIN_BUTTON_WAKEUP_ESP32, RtcGpioIsValidGpio PIN_BUTTON_WAKEUP_ESP32,
             RtcGpioPullupDis PIN_BUTTON_WAKEUP_ESP32, RtcGpioPulldownEn PIN_BUTTON_WAKEUP_ESP32,
             EspSleepEnableExt0Wakeup PIN_BUTTON_WAKEUP_ESP32 1])
   \<and> (\<not> use_pull \<longrightarrow>
        RtcGpioPullupDis g \<notin> set (new_calls (init_rtc use_pull r) s) \<and>
        RtcGpioPulldownEn g \<notin> set (new_calls (init_rtc use_pull r) s))
   \<and> \<not> USE_INTERNAL_PULLUP_PULLDOWN"
  using init_rtc_no_pull [of g r s]
  by (simp add: init_rtc_idf_calls USE_INTERNAL_PULLUP_PULLDOWN_def del: upt_Suc)

theorem init_rtc_pull_step_witness:
  "filter is_idf_call (new_calls (init_rtc True rtc_all_ok) (sleep_boot (\<lambda>p. Low))) =
     map RtcGpioDeinit [0, 1, 2, 3, 4, 5, 6, 7, 8, 9, 10, 11, 12, 13, 14, 17, 18, 19, 20, 21]
       @ [RtcGpioInit 9, RtcGpioIsValidGpio 9, RtcGpioPullupDis 9, RtcGpioPulldownEn 9,
          EspSleepEnableExt0Wakeup 9 1]
   \<and> RtcGpioPullupDis 9 \<notin> set (new_calls (init_rtc False rtc_all_ok) (sleep_boot (\<lambda>p. Low)))
   \<and> RtcGpioPulldownEn 9 \<notin> set (new_calls (init_rtc False rtc_all_ok) (sleep_boot (\<lambda>p. Low)))"
  using init_rtc_pull_step [of True rtc_all_ok "sleep_boot (\<lambda>p. Low)" 9]
    init_rtc_pull_step [of False rtc_all_ok "sleep_boot (\<lambda>p. Low)" 9]
  by (simp add: upt_rec PIN_BUTTON_WAKEUP_ESP32_def)

text \<open>
  C2 as stated fails: as configured, from reset and with every call succeeding,
  \<open>init_rtc\<close> calls neither \<open>rtc_gpio_pullup_dis\<close> nor \<open>rtc_gpio_pulldown_en\<close> on
  the wake-up pin.
\<close>

theorem init_rtc_pull_step_counterexample:
  "RtcGpioPullupDis PIN_BUTTON_WAKEUP_ESP32 \<notin>
     set (calls (init_rtc USE_INTERNAL_PULLUP_PULLDOWN rtc_all_ok (sleep_boot (\<lambda>p. Low))))
   \<and> RtcGpioPulldownEn PIN_BUTTON_WAKEUP_ESP32 \<notin>
     set (calls (init_rtc USE_INTERNAL_PULLUP_PULLDOWN rtc_all_ok (sleep_boot (\<lambda>p. Low))))"
  using init_rtc_no_pull [of PIN_BUTTON_WAKEUP_ESP32 rtc_all_ok "sleep_boot (\<lambda>p. Low)"]
  by (simp add: new_calls_def sleep_boot_def USE_INTERNAL_PULLUP_PULLDOWN_def)

text \<open>
  C3. A call of \<open>handleSleepButton\<close> calls \<open>esp_deep_sleep_start\<close> if and only if
  the elapsed time \<open>millis() - lastEdgeTime\<close> (unsigned 32-bit) is strictly more than 50
  and the sleep button pin reads high: never within the debounce window, never while
  the pin reads low.
\<close>

theorem handleSleepButton_sleeps_iff:
  "(EspDeepSleepStart \<in> set (new_calls (handleSleepButton now btn) s)) =
     (50 < unat (now - lastEdgeTime_sleep s) \<and> btn = High)"
  by (cases btn)
    (simp_all add: handleSleepButton_def new_calls_def Let_def emit_def Serial_println_def
      delay_def esp_deep_sleep_start_def DEBOUNCE_DELAY_def level_val_def LOW_def HIGH_def
      word_less_nat_alt)

theorem handleSleepButton_sleeps_iff_witness:
  "EspDeepSleepStart \<in> set (new_calls (handleSleepButton 51 High) (sleep_boot (\<lambda>p. Low)))
   \<and> EspDeepSleepStart \<notin> set (new_calls (handleSleepButton 50 High) (sleep_boot (\<lambda>p. Low)))
   \<and> EspDeepSleepStart \<notin> set (new_calls (handleSleepButton 51 Low) (sleep_boot (\<lambda>p. Low)))"
  using handleSleepButton_sleeps_iff [of 51 High "sleep_boot (\<lambda>p. Low)"]
    handleSleepButton_sleeps_iff [of 50 High "sleep_boot (\<lambda>p. Low)"]
    handleSleepButton_sleeps_iff [of 51 Low "sleep_boot (\<lambda>p. Low)"]
  by (simp add: sleep_boot_def)


section \<open>The debounced handlers\<close>

text \<open>
  C4. In a call of \<open>handleButton\<close> with more than \<open>debounceDelay\<close> = 50 ms elapsed
  since \<open>lastEdgeTime\<close>, the relay pin (7) is written with the negation of the value
  read from the push button pin (2): it is driven low exactly when the button reads
  high, and high exactly when the button reads low.
\<close>

theorem handleButton_drives_relay:
  assumes "debounceDelay s = 50" and "50 < unat (now - lastEdgeTime_button s)"
  shows "new_calls (handleButton now btn) s =
           [Millis now,
            SerialPrintln (''[handleButton()] Button changed -'' @ String_nat (unat now) @ '' ms-''),
            DigitalRead PIN_PUSH_BUTTON btn,
            DigitalWrite PIN_RELAY_button (if btn = High then Low else High),
            SerialPrintln ''[handleButton()] Relay activated/deactivated.'']
         \<and> (levels (handleButton now btn s) PIN_RELAY_button = Low) = (btn = High)
         \<and> (levels (handleButton now btn s) PIN_RELAY_button = High) = (btn = Low)
         \<and> PIN_RELAY_button = D 7 \<and> PIN_PUSH_BUTTON = D 2"
  using assms
  by (cases btn)
    (simp_all add: handleButton_def new_calls_def Let_def emit_def Serial_println_def
      digitalWrite_def level_val_def level_of_def c_not_def LOW_def HIGH_def word_less_nat_alt
      PIN_RELAY_button_def PIN_PUSH_BUTTON_def)

theorem handleButton_drives_relay_witness:
  "levels (handleButton 1000 High (setup_button (button_boot (\<lambda>p. High)))) (D 7) = Low
   \<and> levels (handleButton 1000 Low (setup_button (button_boot (\<lambda>p. Low)))) (D 7) = High"
  using handleButton_drives_relay [of "setup_button (button_boot (\<lambda>p. High))" 1000 High]
    handleButton_drives_relay [of "setup_button (button_boot (\<lambda>p. Low))" 1000 Low]
  by (simp add: setup_button_def button_boot_def run_def pinMode_def attachInterrupt_def
      Serial_begin_def digitalWrite_def emit_def)

text \<open>
  C5. In each of the three debounced handlers, a call in which the elapsed time the
  guard computes (\<open>millis()\<close> minus the stored \<open>lastEdgeTime\<close>, unsigned 32-bit) is not
  greater than 50 leaves the state as it was but for the record of the calls made: the
  read of \<open>millis()\<close>, and the debug line printed before the guard (in
  \<open>handleButton\<close>, and in \<open>handlePumpButton\<close> if \<open>DEBUG_MODE\<close> were defined).
  So no pin is written, \<open>lastEdgeTime\<close> keeps its value and \<open>esp_deep_sleep_start\<close>
  is not called.
\<close>

theorem debounce_window_changes_nothing:
  "(debounceDelay s1 = 50 \<and> unat (now - lastEdgeTime_button s1) \<le> 50 \<longrightarrow>
      handleButton now btn s1 =
        s1\<lparr>calls := calls s1 @ [Millis now,
          SerialPrintln (''[handleButton()] Button changed -'' @ String_nat (unat now) @ '' ms-'')]\<rparr>)
   \<and> (unat (now - ucast (lastEdgeTime_main s2)) \<le> 50 \<longrightarrow>
      handlePumpButton dbg now btn s2 =
        s2\<lparr>calls := calls s2 @ Millis now #
          (if dbg then [SerialPrintln ''handlePumpButton(): In the ISR!''] else [])\<rparr>)
   \<and> (unat (now - lastEdgeTime_sleep s3) \<le> 50 \<longrightarrow>
      handleSleepButton now btn s3 = s3\<lparr>calls := calls s3 @ [Millis now]\<rparr>)"
  by (simp add: handleButton_def handlePumpButton_def handleSleepButton_def Let_def emit_def
      Serial_println_def DEBOUNCE_DELAY_main_def DEBOUNCE_DELAY_def word_less_nat_alt)

theorem debounce_window_changes_nothing_witness:
  "handleButton 1030 High (button_boot (\<lambda>p. High)\<lparr>lastEdgeTime_button := 1000\<rparr>) =
     button_boot (\<lambda>p. High)\<lparr>lastEdgeTime_button := 1000,
       calls := [Millis 1030, SerialPrintln (''[handleButton()] Button changed -''
                   @ String_nat 1030 @ '' ms-'')]\<rparr>
   \<and> handlePumpButton DEBUG_MODE_main 1050 High (main_boot (\<lambda>p. High)\<lparr>lastEdgeTime_main := 1000\<rparr>) =
       main_boot (\<lambda>p. High)\<lparr>lastEdgeTime_main := 1000, calls := [Millis 1050]\<rparr>
   \<and> handleSleepButton 50 High (sleep_boot (\<lambda>p. Low)) = sleep_boot (\<lambda>p. Low)\<lparr>calls := [Millis 50]\<rparr>"
  using debounce_window_changes_nothing [where now = 1030 and btn = High and dbg = DEBUG_MODE_main
      and ?s1.0 = "button_boot (\<lambda>p. High)\<lparr>lastEdgeTime_button := 1000\<rparr>"
      and ?s2.0 = "main_boot (\<lambda>p. High)" and ?s3.0 = "sleep_boot (\<lambda>p. Low)"]
    debounce_window_changes_nothing [where now = 1050 and btn = High and dbg = DEBUG_MODE_main
      and ?s1.0 = "button_boot (\<lambda>p. High)"
      and ?s2.0 = "main_boot (\<lambda>p. High)\<lparr>lastEdgeTime_main := 1000\<rparr>"
      and ?s3.0 = "sleep_boot (\<lambda>p. Low)"]
    debounce_window_changes_nothing [where now = 50 and btn = High and dbg = DEBUG_MODE_main
      and ?s1.0 = "button_boot (\<lambda>p. High)" and ?s2.0 = "main_boot (\<lambda>p. High)"
      and ?s3.0 = "sleep_boot (\<lambda>p. Low)"]
  by (simp add: button_boot_def main_boot_def sleep_boot_def DEBUG_MODE_main_def)


section \<open>Moist_sensor_calibration.ino\<close>

lemma map_arduino_perc: "map_arduino v 1100 3500 0 100 = c_div ((v - 1100) * 100) 2400"
  by (simp add: map_arduino_def)

lemma sint_in_range:
  assumes "- (2 ^ 31) \<le> k" and "k < 2 ^ 31"
  shows "sint (word_of_int k :: 32 word) = k"
  using assms by (simp add: signed_of_int signed_take_bit_int_eq_self)

text \<open>For a reading of the 12-bit converter nothing overflows: the quotient is that of the integers.\<close>

lemma perc_exact:
  assumes "0 \<le> sint v" and "sint v \<le> 4095"
  shows "sint (c_div ((v - 1100) * 100) 2400) = ((sint v - 1100) * 100) sdiv 2400"
proof -
  have d: "sint (v - 1100) = sint v - 1100"
    using assms by (simp add: sint_word_diff signed_take_bit_int_eq_self)
  have m: "sint ((v - 1100) * 100) = (sint v - 1100) * 100"
  proof -
    have "sint ((v - 1100) * 100) = signed_take_bit 31 ((sint v - 1100) * 100)"
      unfolding sint_word_mult d by simp
    also have "\<dots> = (sint v - 1100) * 100"
      using assms by (intro signed_take_bit_int_eq_self) simp_all
    finally show ?thesis .
  qed
  have b: "- 45 \<le> ((sint v - 1100) * 100) sdiv 2400 \<and> ((sint v - 1100) * 100) sdiv 2400 \<le> 124"
    using assms by (simp add: signed_divide_int_def sgn_if) arith
  have c: "c_div ((v - 1100) * 100) 2400 = word_of_int (((sint v - 1100) * 100) sdiv 2400)"
    unfolding c_div_def m by simp
  have "sint (word_of_int (((sint v - 1100) * 100) sdiv 2400) :: 32 word)
          = ((sint v - 1100) * 100) sdiv 2400"
    using b by (intro sint_in_range) simp_all
  then show ?thesis
    unfolding c .
qed

lemma String_int_2300: "String_int 2300 = ''2300''"
  by code_simp

lemma String_int_50: "String_int 50 = ''50''"
  by code_simp

lemma String_int_0: "String_int 0 = ''0''"
  by code_simp

lemma String_int_m45: "String_int (- 45) = ''-45''"
  by code_simp

text \<open>
  C6. An iteration of \<open>loop\<close> with reading \<open>v\<close> makes exactly these calls: one
  \<open>analogRead\<close> of pin A0, the line with the raw value, the line with the percentage,
  and the delay. The percentage is \<open>map(val, 1100, 3500, 0, 100)\<close>, that is
  \<open>(val - 1100) * 100 / 2400\<close> in the 32-bit arithmetic of C with the division
  truncated towards zero; for a reading between 0 and 4095 it is the truncated
  quotient of the integers.
\<close>

theorem loop_calibration_prints:
  "new_calls (loop_calibration v) s =
     [AnalogRead PIN_SENSOR v,
      SerialPrintln (''Sensor value: '' @ String_int (sint v)),
      SerialPrintln (''Expressed in percentage: ''
                       @ String_int (sint (c_div ((v - 1100) * 100) 2400))),
      Delay 1000]
   \<and> PIN_SENSOR = A 0
   \<and> map_arduino v 1100 3500 0 100 = c_div ((v - 1100) * 100) 2400
   \<and> (0 \<le> sint v \<and> sint v \<le> 4095 \<longrightarrow>
        sint (c_div ((v - 1100) * 100) 2400) = ((sint v - 1100) * 100) sdiv 2400)"
  using perc_exact [of v]
  by (simp add: loop_calibration_def new_calls_def Let_def emit_def Serial_println_def
      delay_def map_arduino_perc PIN_SENSOR_def)

text \<open>A reading of 2300 prints 50; a reading of 0 prints -45 (-110000 / 2400, truncated).\<close>

theorem loop_calibration_prints_witness:
  "new_calls (loop_calibration 2300) (setup_calibration (calibration_boot (\<lambda>p. Low))) =
     [AnalogRead (A 0) 2300, SerialPrintln ''Sensor value: 2300'',
      SerialPrintln ''Expressed in percentage: 50'', Delay 1000]
   \<and> new_calls (loop_calibration 0) (setup_calibration (calibration_boot (\<lambda>p. Low))) =
     [AnalogRead (A 0) 0, SerialPrintln ''Sensor value: 0'',
      SerialPrintln ''Expressed in percentage: -45'', Delay 1000]"
  using loop_calibration_prints [of 2300 "setup_calibration (calibration_boot (\<lambda>p. Low))"]
    loop_calibration_prints [of 0 "setup_calibration (calibration_boot (\<lambda>p. Low))"]
  by (simp add: String_int_2300 String_int_50 String_int_0 String_int_m45 signed_divide_int_def)


section \<open>Test_command_relay.ino\<close>

lemma relayState_loop_relay: "relayState (loop_relay s) = c_not (relayState s)"
  by (simp add: loop_relay_def Let_def delay_def digitalWrite_def Serial_println_def
      Serial_print_def emit_def)

lemma levels_loop_relay:
  "levels (loop_relay s) = (levels s)(PIN_RELAY_relay := level_of (c_not (relayState s) :: 8 word))"
  by (simp add: loop_relay_def Let_def delay_def digitalWrite_def Serial_println_def
      Serial_print_def emit_def)

lemma writes_loop_relay:
  "writes_to PIN_RELAY_relay (calls (loop_relay s)) =
     writes_to PIN_RELAY_relay (calls s) @ [level_of (c_not (relayState s) :: 8 word)]"
  by (simp add: loop_relay_def Let_def delay_def digitalWrite_def Serial_println_def
      Serial_print_def emit_def writes_to_def)

lemma relayState_iterated:
  "relayState s = HIGH \<Longrightarrow> relayState ((loop_relay ^^ n) s) = (if even n then HIGH else LOW)"
  by (induction n) (simp_all add: relayState_loop_relay c_not_def HIGH_def LOW_def)

lemma levels_iterated:
  assumes "relayState s = HIGH"
  shows "levels ((loop_relay ^^ Suc n) s) PIN_RELAY_relay = (if even n then Low else High)"
  using relayState_iterated [OF assms, of n]
  by (simp add: levels_loop_relay c_not_def level_of_def HIGH_def LOW_def)

lemma writes_iterated:
  assumes "relayState s = HIGH"
  shows "writes_to PIN_RELAY_relay (calls ((loop_relay ^^ n) s)) =
           writes_to PIN_RELAY_relay (calls s) @ map (\<lambda>k. if odd k then Low else High) [1..<Suc n]"
proof (induction n)
  case 0
  show ?case by simp
next
  case (Suc n)
  show ?case
    using relayState_iterated [OF assms, of n] Suc
    by (simp add: writes_loop_relay c_not_def level_of_def HIGH_def LOW_def)
qed

lemma alternating_distinct_adj:
  "distinct_adj (map (\<lambda>k. if odd k then Low else High) [1..<Suc n])"
  by (auto simp add: distinct_adj_conv_nth simp del: upt_Suc)

lemma setup_relay_facts:
  "relayState (setup_relay (relay_boot lv)) = HIGH"
  "writes_to PIN_RELAY_relay (calls (setup_relay (relay_boot lv))) = []"
  by (simp_all add: setup_relay_def relay_boot_def run_def pinMode_def Serial_begin_def emit_def
      writes_to_def)

text \<open>
  C7. From reset (\<open>relayState = HIGH\<close>) and after \<open>setup\<close>, after \<open>n \<ge> 1\<close>
  iterations of \<open>loop\<close> the relay pin (7) is low exactly when \<open>n\<close> is odd and high
  exactly when \<open>n\<close> is even; the values written to it are low, high, low, ... in turn,
  no two consecutive ones equal, and the next iteration changes the level.
\<close>

theorem loop_relay_alternates:
  assumes "1 \<le> n"
  shows "(levels ((loop_relay ^^ n) (setup_relay (relay_boot lv))) PIN_RELAY_relay = Low) = odd n
       \<and> (levels ((loop_relay ^^ n) (setup_relay (relay_boot lv))) PIN_RELAY_relay = High) = even n
       \<and> writes_to PIN_RELAY_relay (calls ((loop_relay ^^ n) (setup_relay (relay_boot lv)))) =
           map (\<lambda>k. if odd k then Low else High) [1..<Suc n]
       \<and> distinct_adj (writes_to PIN_RELAY_relay
           (calls ((loop_relay ^^ n) (setup_relay (relay_boot lv)))))
       \<and> levels ((loop_relay ^^ Suc n) (setup_relay (relay_boot lv))) PIN_RELAY_relay \<noteq>
           levels ((loop_relay ^^ n) (setup_relay (relay_boot lv))) PIN_RELAY_relay
       \<and> PIN_RELAY_relay = D 7"
proof -
  obtain m where n: "n = Suc m"
    using assms by (cases n) simp_all
  have h: "relayState (setup_relay (relay_boot lv)) = HIGH"
    by (rule setup_relay_facts)
  have w: "writes_to PIN_RELAY_relay (calls ((loop_relay ^^ n) (setup_relay (relay_boot lv)))) =
           map (\<lambda>k. if odd k then Low else High) [1..<Suc n]"
    using writes_iterated [OF h, of n] by (simp add: setup_relay_facts)
  have l: "levels ((loop_relay ^^ n) (setup_relay (relay_boot lv))) PIN_RELAY_relay
             = (if even m then Low else High)"
    unfolding n by (rule levels_iterated [OF h])
  have l': "levels ((loop_relay ^^ Suc n) (setup_relay (relay_boot lv))) PIN_RELAY_relay
             = (if even n then Low else High)"
    by (rule levels_iterated [OF h])
  show ?thesis
    unfolding w l l' using alternating_distinct_adj [of n]
    by (simp add: n PIN_RELAY_relay_def)
qed

theorem loop_relay_alternates_witness:
  "levels ((loop_relay ^^ 1) (setup_relay (relay_boot (\<lambda>p. High)))) (D 7) = Low
   \<and> levels ((loop_relay ^^ 2) (setup_relay (relay_boot (\<lambda>p. High)))) (D 7) = High
   \<and> writes_to (D 7) (calls ((loop_relay ^^ 3) (setup_relay (relay_boot (\<lambda>p. High)))))
       = [Low, High, Low]"
  using loop_relay_alternates [of 1 "\<lambda>p. High"] loop_relay_alternates [of 2 "\<lambda>p. High"]
    loop_relay_alternates [of 3 "\<lambda>p. High"]
  by (simp add: upt_rec)


section \<open>main.ino\<close>

lemma levels_delay: "levels (delay ms s) = levels s"
  by (simp add: delay_def levels_emit)

lemma loop_main_calls:
  "calls (loop_main False v s) =
     calls s @ AnalogRead PIN_MOIST_SENSOR v #
       (if 1900 < sint v then
          [DigitalWrite PIN_LED_Y High, DigitalWrite PIN_RELAY_main Low,
           DigitalWrite PIN_LED_G High, Delay 5000, DigitalWrite PIN_RELAY_main High,
           DigitalWrite PIN_LED_G Low]
        else [DigitalWrite PIN_LED_Y Low])
       @ [Delay (POLLING_PERIOD_M * 3600)]"
  by (simp add: loop_main_def isSoilDry_def actionPump_def Let_def calls_digitalWrite
      calls_delay calls_emit BASE_DRY_THRESHOLD_def level_of_def HIGH_def LOW_def)

lemma loop_main_levels:
  "levels (loop_main False v s) =
     (if 1900 < sint v then
        (levels s)(PIN_LED_Y := High, PIN_RELAY_main := High, PIN_LED_G := Low)
      else (levels s)(PIN_LED_Y := Low))"
  by (auto simp add: loop_main_def isSoilDry_def actionPump_def Let_def levels_digitalWrite
      levels_delay levels_emit BASE_DRY_THRESHOLD_def level_of_def HIGH_def LOW_def
      PIN_LED_Y_def PIN_RELAY_main_def PIN_LED_G_def fun_eq_iff)

text \<open>
  C8. As configured (\<open>DEBUG_MODE\<close> undefined), the last call of every iteration of
  \<open>loop\<close> is \<open>delay(POLLING_PERIOD_M * 3600)\<close>, a delay of 30 * 3600 = 108000 ms:
  1.8 minutes (ten times it is 18 minutes), not the 30 * 60000 ms of 30 minutes.
\<close>

theorem loop_main_polling_delay:
  "last (new_calls (loop_main DEBUG_MODE_main v) s) = Delay (POLLING_PERIOD_M * 3600)
   \<and> unat (POLLING_PERIOD_M * 3600) = 108000
   \<and> unat POLLING_PERIOD_M = 30
   \<and> unat (POLLING_PERIOD_M * 3600) \<noteq> 30 * 60000
   \<and> 10 * unat (POLLING_PERIOD_M * 3600) = 18 * 60000"
  by (simp add: new_calls_def loop_main_calls DEBUG_MODE_main_def POLLING_PERIOD_M_def)

theorem loop_main_polling_delay_witness:
  "last (new_calls (loop_main DEBUG_MODE_main 2800) (setup_main DEBUG_MODE_main (main_boot (\<lambda>p. High))))
     = Delay 108000
   \<and> last (new_calls (loop_main DEBUG_MODE_main 1500) (setup_main DEBUG_MODE_main (main_boot (\<lambda>p. High))))
     = Delay 108000"
  using loop_main_polling_delay [of 2800 "setup_main DEBUG_MODE_main (main_boot (\<lambda>p. High))"]
    loop_main_polling_delay [of 1500 "setup_main DEBUG_MODE_main (main_boot (\<lambda>p. High))"]
  by (simp add: POLLING_PERIOD_M_def)

lemma handlePumpButton_lastEdgeTime:
  "DEBOUNCE_DELAY_main < now - ucast (lastEdgeTime_main s) \<Longrightarrow>
     lastEdgeTime_main (handlePumpButton dbg now btn s) = ucast now"
  by (simp add: handlePumpButton_def Let_def emit_def digitalWrite_def Serial_println_def)

lemma handlePumpButton_writes:
  "DEBOUNCE_DELAY_main < now - ucast (lastEdgeTime_main s) \<Longrightarrow>
     DigitalWrite PIN_RELAY_main (if btn = High then Low else High)
       \<in> set (new_calls (handlePumpButton dbg now btn) s)"
  by (cases btn)
    (simp_all add: handlePumpButton_def new_calls_def Let_def emit_def digitalWrite_def
      Serial_println_def level_val_def level_of_def HIGH_def LOW_def)

lemma setup_main_lastEdgeTime: "lastEdgeTime_main (setup_main dbg (main_boot lv)) = 0"
  by (simp add: setup_main_def main_boot_def run_def pinMode_def digitalWrite_def
      attachInterrupt_def Serial_begin_def emit_def)

text \<open>
  C9. \<open>lastEdgeTime\<close> is 16 bits wide: a call of \<open>handlePumpButton\<close> that passes the
  guard stores \<open>millis() mod 65536\<close>. So there are executions with an uptime above
  65535 ms in which two calls less than 50 ms apart both pass the guard
  \<open>currTime - lastEdgeTime > DEBOUNCE_DELAY\<close> and both write the relay: from reset,
  a press at 70000 ms stores 4464, and the release at 70010 ms sees 65546 ms elapsed.
\<close>

theorem lastEdgeTime_truncated:
  "(DEBOUNCE_DELAY_main < now - ucast (lastEdgeTime_main s) \<longrightarrow>
      unat (lastEdgeTime_main (handlePumpButton dbg now btn s)) = unat now mod 65536)
   \<and> (\<exists>t1 t2 b1 b2.
        65535 < unat t1 \<and> t1 < t2 \<and> unat t2 - unat t1 < 50
        \<and> DEBOUNCE_DELAY_main < t1 - ucast (lastEdgeTime_main (setup_main dbg (main_boot lv)))
        \<and> DEBOUNCE_DELAY_main <
            t2 - ucast (lastEdgeTime_main
                          (handlePumpButton dbg t1 b1 (setup_main dbg (main_boot lv))))
        \<and> DigitalWrite PIN_RELAY_main Low \<in>
            set (new_calls (handlePumpButton dbg t1 b1) (setup_main dbg (main_boot lv)))
        \<and> DigitalWrite PIN_RELAY_main High \<in>
            set (new_calls (handlePumpButton dbg t2 b2)
                   (handlePumpButton dbg t1 b1 (setup_main dbg (main_boot lv)))))"
proof -
  have trunc: "unat (lastEdgeTime_main (handlePumpButton dbg now btn s)) = unat now mod 65536"
    if "DEBOUNCE_DELAY_main < now - ucast (lastEdgeTime_main s)"
    using that by (simp add: handlePumpButton_lastEdgeTime unsigned_ucast_eq take_bit_eq_mod)
  have g1: "DEBOUNCE_DELAY_main < 70000 - ucast (lastEdgeTime_main (setup_main dbg (main_boot lv)))"
    by (simp add: setup_main_lastEdgeTime DEBOUNCE_DELAY_main_def)
  have stored: "lastEdgeTime_main (handlePumpButton dbg 70000 High (setup_main dbg (main_boot lv)))
                  = 4464"
    by (simp add: handlePumpButton_lastEdgeTime [OF g1])
  have g2: "DEBOUNCE_DELAY_main < 70010 - ucast (lastEdgeTime_main
              (handlePumpButton dbg 70000 High (setup_main dbg (main_boot lv))))"
    by (simp add: stored DEBOUNCE_DELAY_main_def)
  have w1: "DigitalWrite PIN_RELAY_main Low \<in>
              set (new_calls (handlePumpButton dbg 70000 High) (setup_main dbg (main_boot lv)))"
    using handlePumpButton_writes [OF g1, of High dbg] by simp
  have w2: "DigitalWrite PIN_RELAY_main High \<in>
              set (new_calls (handlePumpButton dbg 70010 Low)
                     (handlePumpButton dbg 70000 High (setup_main dbg (main_boot lv))))"
    using handlePumpButton_writes [OF g2, of Low dbg] by simp
  have "65535 < unat (70000 :: 32 word) \<and> (70000 :: 32 word) < 70010
          \<and> unat (70010 :: 32 word) - unat (70000 :: 32 word) < 50"
    by simp
  with g1 g2 w1 w2 trunc show ?thesis
    by blast
qed

theorem lastEdgeTime_truncated_witness:
  "unat (lastEdgeTime_main (handlePumpButton DEBUG_MODE_main 70000 High
           (setup_main DEBUG_MODE_main (main_boot (\<lambda>p. High))))) = 4464"
  using lastEdgeTime_truncated [of 70000 "setup_main DEBUG_MODE_main (main_boot (\<lambda>p. High))"
      DEBUG_MODE_main High]
  by (simp add: setup_main_lastEdgeTime DEBOUNCE_DELAY_main_def)

lemma run_loop_main_stmts: "run (loop_main_stmts dbg v) s = loop_main dbg v s"
  by (simp add: loop_main_stmts_def run_def loop_main_def isSoilDry_def Let_def)

lemma run_interleaved_none:
  "run_interleaved dbg (\<lambda>k. []) k fs s = run fs s"
  by (induction fs arbitrary: k s) (simp_all add: run_def)

lemma run_interleaved_append:
  "run_interleaved dbg hs k (fs @ gs) s =
     run_interleaved dbg hs (k + length fs) gs (run_interleaved dbg hs k fs s)"
  by (induction fs arbitrary: k s) simp_all

lemma run_handlers_append:
  "run_handlers dbg (h1 @ h2) s = run_handlers dbg h2 (run_handlers dbg h1 s)"
  by (induction h1 arbitrary: s) auto

lemma handlePumpButton_calls_grow:
  "\<exists>tr. calls (handlePumpButton dbg now btn s) = calls s @ tr"
  by (simp add: handlePumpButton_def Let_def emit_def digitalWrite_def Serial_println_def)

lemma run_handlers_calls_grow: "\<exists>tr. calls (run_handlers dbg h s) = calls s @ tr"
proof (induction h arbitrary: s)
  case Nil
  show ?case by simp
next
  case (Cons a h)
  obtain now btn where a: "a = (now, btn)"
    by (cases a)
  obtain t1 where t1: "calls (handlePumpButton dbg now btn s) = calls s @ t1"
    using handlePumpButton_calls_grow by blast
  obtain t2 where "calls (run_handlers dbg h (handlePumpButton dbg now btn s))
                     = calls (handlePumpButton dbg now btn s) @ t2"
    using Cons.IH by blast
  then show ?case
    by (simp add: a t1)
qed

lemma run_interleaved_subseq:
  assumes "list_all2 (\<lambda>f e. \<forall>s. calls (f s) = calls s @ [e]) fs es"
  shows "\<exists>tr. calls (run_interleaved dbg hs k fs s) = calls s @ tr \<and> subseq es tr"
  using assms
proof (induction fs es arbitrary: k s rule: list_all2_induct)
  case Nil
  show ?case by simp
next
  case (Cons f fs e es)
  obtain th where th: "calls (run_handlers dbg (hs k) (f s)) = calls (f s) @ th"
    using run_handlers_calls_grow by blast
  obtain tr where tr: "calls (run_interleaved dbg hs (Suc k) fs (run_handlers dbg (hs k) (f s)))
                         = calls (run_handlers dbg (hs k) (f s)) @ tr" and sub: "subseq es tr"
    using Cons.IH by blast
  have "calls (run_interleaved dbg hs k (f # fs) s) = calls s @ (e # th @ tr)"
    using Cons.hyps(1) by (simp add: tr th)
  moreover have "subseq (e # es) (e # th @ tr)"
    using sub by (simp add: list_emb_append2)
  ultimately show ?case
    by blast
qed

lemma dry_stmts:
  "1900 < sint v \<Longrightarrow>
     loop_main_stmts False v =
       [\<lambda>s. snd (isSoilDry False v s), digitalWrite PIN_LED_Y HIGH, actionPump False True,
        digitalWrite PIN_LED_G HIGH, delay 5000, actionPump False False,
        digitalWrite PIN_LED_G LOW, delay (POLLING_PERIOD_M * 3600)]"
  by (simp add: loop_main_stmts_def BASE_DRY_THRESHOLD_def)

lemma wet_stmts:
  "sint v \<le> 1900 \<Longrightarrow>
     loop_main_stmts False v =
       [\<lambda>s. snd (isSoilDry False v s), digitalWrite PIN_LED_Y LOW,
        delay (POLLING_PERIOD_M * 3600)]"
  by (simp add: loop_main_stmts_def BASE_DRY_THRESHOLD_def)

lemma pump_view_handlePumpButton:
  "pump_view s = pump_view t \<Longrightarrow>
     pump_view (handlePumpButton dbg now btn s) = pump_view (handlePumpButton dbg now btn t)"
  by (simp add: pump_view_def handlePumpButton_def Let_def emit_def digitalWrite_def
      Serial_println_def)

lemma pump_view_run_handlers:
  "pump_view s = pump_view t \<Longrightarrow>
     pump_view (run_handlers dbg h s) = pump_view (run_handlers dbg h t)"
proof (induction h arbitrary: s t)
  case Nil
  then show ?case by simp
next
  case (Cons a h)
  obtain now btn where a: "a = (now, btn)"
    by (cases a)
  show ?case
    unfolding a run_handlers.simps
    by (rule Cons.IH) (rule pump_view_handlePumpButton [OF Cons.prems])
qed

lemma pump_view_isSoilDry: "pump_view (snd (isSoilDry dbg v s)) = pump_view s"
  by (simp add: pump_view_def isSoilDry_def Let_def emit_def Serial_println_def)

lemma pump_view_LED_Y: "pump_view (digitalWrite PIN_LED_Y x s) = pump_view s"
  by (simp add: pump_view_def digitalWrite_def emit_def PIN_LED_Y_def PIN_RELAY_main_def
      PIN_LED_G_def)

lemma pump_view_delay: "pump_view (delay ms s) = pump_view s"
  by (simp add: pump_view_def delay_def emit_def)

lemma wet_interleaved_view:
  assumes "sint v \<le> 1900"
  shows "pump_view (run_interleaved False hs 0 (loop_main_stmts False v) s) =
           pump_view (run_handlers False (hs 0 @ hs 1 @ hs 2) s)"
proof -
  define a where "a = run_handlers False (hs 0) (snd (isSoilDry False v s))"
  define b where "b = run_handlers False (hs (Suc 0)) (digitalWrite PIN_LED_Y LOW a)"
  define c where "c = run_handlers False (hs (Suc (Suc 0))) (delay (POLLING_PERIOD_M * 3600) b)"
  define a' where "a' = run_handlers False (hs 0) s"
  define b' where "b' = run_handlers False (hs (Suc 0)) a'"
  define c' where "c' = run_handlers False (hs (Suc (Suc 0))) b'"
  have run: "run_interleaved False hs 0 (loop_main_stmts False v) s = c"
    by (simp add: wet_stmts [OF assms] a_def b_def c_def)
  have handlers: "run_handlers False (hs 0 @ hs 1 @ hs 2) s = c'"
    by (simp add: run_handlers_append a'_def b'_def c'_def numeral_2_eq_2)
  have "pump_view (snd (isSoilDry False v s)) = pump_view s"
    by (rule pump_view_isSoilDry)
  then have a: "pump_view a = pump_view a'"
    unfolding a_def a'_def by (rule pump_view_run_handlers)
  have "pump_view (digitalWrite PIN_LED_Y LOW a) = pump_view a'"
    using a by (simp add: pump_view_LED_Y)
  then have b: "pump_view b = pump_view b'"
    unfolding b_def b'_def by (rule pump_view_run_handlers)
  have "pump_view (delay (POLLING_PERIOD_M * 3600) b) = pump_view b'"
    using b by (simp add: pump_view_delay)
  then have "pump_view c = pump_view c'"
    unfolding c_def c'_def by (rule pump_view_run_handlers)
  then show ?thesis
    unfolding run handlers .
qed

lemma dry_interleaved_relay:
  assumes "1900 < sint v" and "hs 5 = []" and "hs 6 = []" and "hs 7 = []"
  shows "levels (run_interleaved False hs 0 (loop_main_stmts False v) s) PIN_RELAY_main = High"
proof -
  have h: "hs (Suc (Suc (Suc (Suc (Suc 0))))) = []"
    "hs (Suc (Suc (Suc (Suc (Suc (Suc 0)))))) = []"
    "hs (Suc (Suc (Suc (Suc (Suc (Suc (Suc 0))))))) = []"
    using assms(2-4) by (simp_all add: eval_nat_numeral)
  show ?thesis
    by (simp add: dry_stmts [OF assms(1)] h actionPump_def [of False False] Let_def
        levels_digitalWrite levels_delay level_of_def HIGH_def LOW_def PIN_RELAY_main_def
        PIN_LED_G_def)
qed

lemma dry_interleaved_led:
  assumes "1900 < sint v" and "hs 6 = []" and "hs 7 = []"
  shows "levels (run_interleaved False hs 0 (loop_main_stmts False v) s) PIN_LED_G = Low"
proof -
  have h: "hs (Suc (Suc (Suc (Suc (Suc (Suc 0)))))) = []"
    "hs (Suc (Suc (Suc (Suc (Suc (Suc (Suc 0))))))) = []"
    using assms(2-3) by (simp_all add: eval_nat_numeral)
  show ?thesis
    by (simp add: dry_stmts [OF assms(1)] h levels_digitalWrite levels_delay level_of_def LOW_def)
qed

lemma calls_isSoilDry:
  "calls (snd (isSoilDry False v s)) = calls s @ [AnalogRead PIN_MOIST_SENSOR v]"
  by (simp add: isSoilDry_def Let_def calls_emit)

lemma calls_actionPump:
  "calls (actionPump False b s) = calls s @ [DigitalWrite PIN_RELAY_main (if b then Low else High)]"
  by (simp add: actionPump_def Let_def calls_digitalWrite level_of_def HIGH_def LOW_def)

lemma dry_interleaved_calls:
  assumes "1900 < sint v"
  shows "subseq
     [AnalogRead PIN_MOIST_SENSOR v, DigitalWrite PIN_LED_Y High,
      DigitalWrite PIN_RELAY_main Low, DigitalWrite PIN_LED_G High, Delay 5000,
      DigitalWrite PIN_RELAY_main High, DigitalWrite PIN_LED_G Low, Delay 108000]
     (new_calls (run_interleaved False hs 0 (loop_main_stmts False v)) s)"
proof -
  have "list_all2 (\<lambda>f e. \<forall>s. calls (f s) = calls s @ [e]) (loop_main_stmts False v)
     [AnalogRead PIN_MOIST_SENSOR v, DigitalWrite PIN_LED_Y High,
      DigitalWrite PIN_RELAY_main Low, DigitalWrite PIN_LED_G High, Delay 5000,
      DigitalWrite PIN_RELAY_main High, DigitalWrite PIN_LED_G Low, Delay 108000]"
    by (simp add: dry_stmts [OF assms] calls_isSoilDry calls_actionPump calls_digitalWrite
        calls_delay level_of_def HIGH_def LOW_def POLLING_PERIOD_M_def)
  from run_interleaved_subseq [OF this, of False hs 0 s] show ?thesis
    by (auto simp add: new_calls_def)
qed

lemma wet_interleaved_calls:
  assumes "sint v \<le> 1900"
  shows "subseq
     [AnalogRead PIN_MOIST_SENSOR v, DigitalWrite PIN_LED_Y Low, Delay 108000]
     (new_calls (run_interleaved False hs 0 (loop_main_stmts False v)) s)"
proof -
  have "list_all2 (\<lambda>f e. \<forall>s. calls (f s) = calls s @ [e]) (loop_main_stmts False v)
     [AnalogRead PIN_MOIST_SENSOR v, DigitalWrite PIN_LED_Y Low, Delay 108000]"
    by (simp add: wet_stmts [OF assms] calls_isSoilDry calls_digitalWrite
        calls_delay level_of_def HIGH_def LOW_def POLLING_PERIOD_M_def)
  from run_interleaved_subseq [OF this, of False hs 0 s] show ?thesis
    by (auto simp add: new_calls_def)
qed

text \<open>
  C10 (as amended). As configured, \<open>loop\<close> itself switches off the pump it switched
  on. In an iteration in which \<open>isSoilDry\<close> is true (reading above 1900) the calls of
  \<open>loop\<close> are, in this order: the read, the yellow LED high, \<open>actionPump(true)\<close>
  (relay low), the green LED high, the 5000 ms delay, \<open>actionPump(false)\<close> (relay
  high, pump off), the green LED low, and the polling delay; they occur in this order
  in the record of calls whatever calls of \<open>handlePumpButton\<close> are interleaved
  (\<open>hs\<close>, from any state \<open>t\<close>). Such an iteration ends with the relay high if
  \<open>handlePumpButton\<close> is not called between \<open>actionPump(false)\<close> and the end of the
  iteration (after the statements 5, 6 and 7, the last being the polling delay), and
  with the green LED low if it is not called after the write of the green LED. In an
  iteration in which \<open>isSoilDry\<close> is false, \<open>loop\<close> writes only the yellow LED: the
  relay and the green LED end at the level at which the interleaved calls of
  \<open>handlePumpButton\<close> alone would leave them, so at the level they had when there is
  none. An iteration without handler calls is \<open>loop_main\<close>.
\<close>

theorem loop_main_pump:
  "(1900 < sint v \<longrightarrow>
      new_calls (loop_main DEBUG_MODE_main v) s =
        [AnalogRead PIN_MOIST_SENSOR v, DigitalWrite PIN_LED_Y High,
         DigitalWrite PIN_RELAY_main Low, DigitalWrite PIN_LED_G High, Delay 5000,
         DigitalWrite PIN_RELAY_main High, DigitalWrite PIN_LED_G Low, Delay 108000]
      \<and> levels (loop_main DEBUG_MODE_main v s) PIN_RELAY_main = High
      \<and> levels (loop_main DEBUG_MODE_main v s) PIN_LED_G = Low
      \<and> subseq
          [AnalogRead PIN_MOIST_SENSOR v, DigitalWrite PIN_LED_Y High,
           DigitalWrite PIN_RELAY_main Low, DigitalWrite PIN_LED_G High, Delay 5000,
           DigitalWrite PIN_RELAY_main High, DigitalWrite PIN_LED_G Low, Delay 108000]
          (new_calls (run_interleaved DEBUG_MODE_main hs 0 (loop_main_stmts DEBUG_MODE_main v)) t)
      \<and> (hs 5 = [] \<and> hs 6 = [] \<and> hs 7 = [] \<longrightarrow>
           levels (run_interleaved DEBUG_MODE_main hs 0 (loop_main_stmts DEBUG_MODE_main v) t)
             PIN_RELAY_main = High)
      \<and> (hs 6 = [] \<and> hs 7 = [] \<longrightarrow>
           levels (run_interleaved DEBUG_MODE_main hs 0 (loop_main_stmts DEBUG_MODE_main v) t)
             PIN_LED_G = Low))
   \<and> (sint v \<le> 1900 \<longrightarrow>
      new_calls (loop_main DEBUG_MODE_main v) s =
        [AnalogRead PIN_MOIST_SENSOR v, DigitalWrite PIN_LED_Y Low, Delay 108000]
      \<and> levels (loop_main DEBUG_MODE_main v s) PIN_RELAY_main = levels s PIN_RELAY_main
      \<and> levels (loop_main DEBUG_MODE_main v s) PIN_LED_G = levels s PIN_LED_G
      \<and> levels (run_interleaved DEBUG_MODE_main hs 0 (loop_main_stmts DEBUG_MODE_main v) t)
            PIN_RELAY_main =
          levels (run_handlers DEBUG_MODE_main (hs 0 @ hs 1 @ hs 2) t) PIN_RELAY_main
      \<and> levels (run_interleaved DEBUG_MODE_main hs 0 (loop_main_stmts DEBUG_MODE_main v) t)
            PIN_LED_G =
          levels (run_handlers DEBUG_MODE_main (hs 0 @ hs 1 @ hs 2) t) PIN_LED_G)
   \<and> run_interleaved DEBUG_MODE_main (\<lambda>k. []) 0 (loop_main_stmts DEBUG_MODE_main v) t =
       loop_main DEBUG_MODE_main v t"
proof -
  have plain: "(1900 < sint v \<longrightarrow>
      new_calls (loop_main False v) s =
        [AnalogRead PIN_MOIST_SENSOR v, DigitalWrite PIN_LED_Y High,
         DigitalWrite PIN_RELAY_main Low, DigitalWrite PIN_LED_G High, Delay 5000,
         DigitalWrite PIN_RELAY_main High, DigitalWrite PIN_LED_G Low, Delay 108000]
      \<and> levels (loop_main False v s) PIN_RELAY_main = High
      \<and> levels (loop_main False v s) PIN_LED_G = Low)
   \<and> (sint v \<le> 1900 \<longrightarrow>
      new_calls (loop_main False v) s =
        [AnalogRead PIN_MOIST_SENSOR v, DigitalWrite PIN_LED_Y Low, Delay 108000]
      \<and> levels (loop_main False v s) PIN_RELAY_main = levels s PIN_RELAY_main
      \<and> levels (loop_main False v s) PIN_LED_G = levels s PIN_LED_G)"
    by (simp add: new_calls_def loop_main_calls loop_main_levels
        POLLING_PERIOD_M_def PIN_LED_Y_def PIN_RELAY_main_def PIN_LED_G_def)
  have view: "levels (run_interleaved False hs 0 (loop_main_stmts False v) t) PIN_RELAY_main =
                levels (run_handlers False (hs 0 @ hs 1 @ hs 2) t) PIN_RELAY_main
              \<and> levels (run_interleaved False hs 0 (loop_main_stmts False v) t) PIN_LED_G =
                levels (run_handlers False (hs 0 @ hs 1 @ hs 2) t) PIN_LED_G"
    if "sint v \<le> 1900"
    using wet_interleaved_view [OF that, of hs t] by (simp add: pump_view_def)
  have none: "run_interleaved False (\<lambda>k. []) 0 (loop_main_stmts False v) t = loop_main False v t"
    by (simp add: run_interleaved_none run_loop_main_stmts)
  show ?thesis
    unfolding DEBUG_MODE_main_def
    using plain view none dry_interleaved_calls [of v hs t] dry_interleaved_relay [of v hs t]
      dry_interleaved_led [of v hs t]
    by blast
qed

theorem loop_main_pump_witness:
  "levels (loop_main DEBUG_MODE_main 2800 (main_boot (\<lambda>p. Low))) PIN_RELAY_main = High
   \<and> levels (loop_main DEBUG_MODE_main 2800 (main_boot (\<lambda>p. Low))) PIN_LED_G = Low
   \<and> new_calls (loop_main DEBUG_MODE_main 1500) (main_boot (\<lambda>p. Low)) =
       [AnalogRead PIN_MOIST_SENSOR 1500, DigitalWrite PIN_LED_Y Low, Delay 108000]
   \<and> levels (run_interleaved DEBUG_MODE_main (\<lambda>k. if k = 2 then [(9000, High)] else []) 0
         (loop_main_stmts DEBUG_MODE_main 2800) (setup_main DEBUG_MODE_main (main_boot (\<lambda>p. High))))
       PIN_RELAY_main = High
   \<and> levels (run_interleaved DEBUG_MODE_main (\<lambda>k. if k = 1 then [(9000, High)] else []) 0
         (loop_main_stmts DEBUG_MODE_main 1500) (setup_main DEBUG_MODE_main (main_boot (\<lambda>p. High))))
       PIN_RELAY_main = Low"
  using loop_main_pump [of 2800 "main_boot (\<lambda>p. Low)" "\<lambda>k. if k = 2 then [(9000, High)] else []"
      "setup_main DEBUG_MODE_main (main_boot (\<lambda>p. High))"]
    loop_main_pump [of 1500 "main_boot (\<lambda>p. Low)" "\<lambda>k. if k = 1 then [(9000, High)] else []"
      "setup_main DEBUG_MODE_main (main_boot (\<lambda>p. High))"]
  by (simp add: DEBUG_MODE_main_def handlePumpButton_def setup_main_def
      main_boot_def run_def pinMode_def digitalWrite_def attachInterrupt_def emit_def Let_def
      DEBOUNCE_DELAY_main_def level_val_def level_of_def HIGH_def LOW_def
      PIN_LED_Y_def PIN_RELAY_main_def PIN_LED_G_def)

text \<open>
  C10 as stated fails: not every complete iteration leaves the pump deactivated. From
  reset with every pin high, after \<open>setup\<close> the push button is pressed at 1000 ms
  (\<open>handlePumpButton\<close> drives the relay low: pump on); the iteration of \<open>loop\<close> that
  follows reads 1500 (soil not dry), does not write the relay, and ends with the relay
  still low. And in an iteration that reads 2800 (soil dry), a press at 9000 ms during
  the polling delay leaves the relay low at the end of the iteration.
\<close>

theorem loop_main_pump_counterexample:
  "levels (loop_main DEBUG_MODE_main 1500
             (handlePumpButton DEBUG_MODE_main 1000 High
                (setup_main DEBUG_MODE_main (main_boot (\<lambda>p. High))))) PIN_RELAY_main = Low
   \<and> levels (run_interleaved DEBUG_MODE_main (\<lambda>k. if k = 7 then [(9000, High)] else []) 0
         (loop_main_stmts DEBUG_MODE_main 2800) (setup_main DEBUG_MODE_main (main_boot (\<lambda>p. High))))
       PIN_RELAY_main = Low"
  by (simp add: loop_main_levels DEBUG_MODE_main_def handlePumpButton_def setup_main_def
      main_boot_def run_def pinMode_def digitalWrite_def attachInterrupt_def emit_def Let_def
      DEBOUNCE_DELAY_main_def level_val_def level_of_def HIGH_def LOW_def
      PIN_LED_Y_def PIN_RELAY_main_def PIN_LED_G_def loop_main_stmts_def BASE_DRY_THRESHOLD_def
      isSoilDry_def actionPump_def delay_def)

end
